theory Spec2Isabelle
  imports Complex_Main
begin

section \<open>Text primitives of the Python runtime\<close>

text \<open>
  SQL text and identifiers are modelled as \<^typ>\<open>string\<close>. The functions below follow
  Python's \<^verbatim>\<open>str\<close> methods on the ASCII range: \<^verbatim>\<open>upper\<close>/\<^verbatim>\<open>lower\<close> change the 26 letters
  only, whitespace is what \<^verbatim>\<open>str.isspace\<close> accepts below code 128, and a word character
  is a letter, a digit or the underscore. Integers are unbounded, as in Python. Outside
  ASCII text, and for numbers of more than 4300 digits, the interpreter behaves
  differently (see \<open>ascii_text\<close>, \<open>limit_number_convertible\<close> and \<open>int_convertible\<close>
  below); the properties that depend on it are stated for that domain.
\<close>

definition upper_char :: "char \<Rightarrow> char" where
  "upper_char c = (let n = (of_char c :: nat) in if 97 \<le> n \<and> n \<le> 122 then char_of (n - 32) else c)"

definition lower_char :: "char \<Rightarrow> char" where
  "lower_char c = (let n = (of_char c :: nat) in if 65 \<le> n \<and> n \<le> 90 then char_of (n + 32) else c)"

definition upper :: "string \<Rightarrow> string" where
  "upper s = map upper_char s"

definition lower :: "string \<Rightarrow> string" where
  "lower s = map lower_char s"

definition is_space :: "char \<Rightarrow> bool" where
  "is_space c = (let n = (of_char c :: nat) in (9 \<le> n \<and> n \<le> 13) \<or> (28 \<le> n \<and> n \<le> 32))"

definition is_digit :: "char \<Rightarrow> bool" where
  "is_digit c = (let n = (of_char c :: nat) in 48 \<le> n \<and> n \<le> 57)"

definition is_word :: "char \<Rightarrow> bool" where
  "is_word c = (let n = (of_char c :: nat) in
     (48 \<le> n \<and> n \<le> 57) \<or> (65 \<le> n \<and> n \<le> 90) \<or> (97 \<le> n \<and> n \<le> 122) \<or> n = 95)"

text \<open>\<^verbatim>\<open>s.startswith(sub)\<close> and \<^verbatim>\<open>sub in s\<close>.\<close>

definition startswith :: "string \<Rightarrow> string \<Rightarrow> bool" where
  "startswith s sub = (take (length sub) s = sub)"

definition endswith :: "string \<Rightarrow> string \<Rightarrow> bool" where
  "endswith s sub = (length sub \<le> length s \<and> drop (length s - length sub) s = sub)"

fun contains :: "string \<Rightarrow> string \<Rightarrow> bool" where
  "contains [] sub = (sub = [])"
| "contains (x # xs) sub = (startswith (x # xs) sub \<or> contains xs sub)"

text \<open>\<^verbatim>\<open>s.count(sub)\<close>: the number of non-overlapping occurrences, scanning from the left.\<close>

function count_sub :: "string \<Rightarrow> string \<Rightarrow> nat" where
  "count_sub [] sub = (if sub = [] then 1 else 0)"
| "count_sub (x # xs) sub =
     (if sub = [] then Suc (count_sub xs sub)
      else if startswith (x # xs) sub then Suc (count_sub (drop (length sub - 1) xs) sub)
      else count_sub xs sub)"
  by pat_completeness auto
termination
  by (relation "measure (\<lambda>(s, sub). length s)") auto

text \<open>\<^verbatim>\<open>s.strip()\<close>, \<^verbatim>\<open>s.rstrip(';')\<close> and \<^verbatim>\<open>s.split()\<close>.\<close>

definition rstrip_char :: "char \<Rightarrow> string \<Rightarrow> string" where
  "rstrip_char c s = rev (dropWhile (\<lambda>x. x = c) (rev s))"

definition strip :: "string \<Rightarrow> string" where
  "strip s = rev (dropWhile is_space (rev (dropWhile is_space s)))"

function split_ws :: "string \<Rightarrow> string list" where
  "split_ws s =
     (case dropWhile is_space s of
        [] \<Rightarrow> []
      | x # xs \<Rightarrow> takeWhile (\<lambda>c. \<not> is_space c) (x # xs)
                 # split_ws (dropWhile (\<lambda>c. \<not> is_space c) xs))"
  by pat_completeness auto
termination
proof (relation "measure length", goal_cases)
  case 1
  show ?case by simp
next
  case (2 s x xs)
  have "length (dropWhile (\<lambda>c. \<not> is_space c) xs) \<le> length xs"
    by (rule length_dropWhile_le)
  moreover have "length (dropWhile is_space s) \<le> length s"
    by (rule length_dropWhile_le)
  ultimately show ?case using 2 by simp
qed

declare split_ws.simps [simp del]

text \<open>\<^verbatim>\<open>str(n)\<close> and \<^verbatim>\<open>int(digits)\<close> for decimal numerals.\<close>

function show_nat :: "nat \<Rightarrow> string" where
  "show_nat n = (if n < 10 then [char_of (48 + n)] else show_nat (n div 10) @ [char_of (48 + n mod 10)])"
  by pat_completeness auto
termination
  by (relation "measure id") auto

declare show_nat.simps [simp del]

definition show_int :: "int \<Rightarrow> string" where
  "show_int i = (if i < 0 then CHR ''-'' # show_nat (nat (- i)) else show_nat (nat i))"

definition digit_val :: "char \<Rightarrow> nat" where
  "digit_val c = of_char c - 48"

definition parse_nat :: "string \<Rightarrow> nat" where
  "parse_nat ds = foldl (\<lambda>acc c. acc * 10 + digit_val c) 0 ds"


section \<open>Regular expressions used by the security utilities\<close>

text \<open>
  The patterns of \<^verbatim>\<open>utils/security.py\<close> are sequences of literal characters, the
  assertion \<^verbatim>\<open>\b\<close>, and \<^verbatim>\<open>*\<close>/\<^verbatim>\<open>+\<close> applied to one of the classes \<^verbatim>\<open>\s\<close>, \<^verbatim>\<open>\d\<close> and
  \<^verbatim>\<open>.\<close>. Every use passes \<^verbatim>\<open>re.IGNORECASE\<close>, so a literal matches in either case.
  \<open>matches\<close> is a backtracking matcher anchored at the current position: it returns the
  text left after each possible match, the greedy alternative first, as \<^verbatim>\<open>re\<close> tries
  them. Its second argument is the character before the current position, which
  \<^verbatim>\<open>\b\<close> looks at.
\<close>

datatype cclass = Space | Digit | Dot

datatype atom = Lit char | WordB | Star cclass | Plus cclass

type_synonym pattern = "atom list"

fun in_class :: "cclass \<Rightarrow> char \<Rightarrow> bool" where
  "in_class Space c = is_space c"
| "in_class Digit c = is_digit c"
| "in_class Dot c = (c \<noteq> CHR 0x0A)"

definition word_before :: "char option \<Rightarrow> bool" where
  "word_before p = (case p of None \<Rightarrow> False | Some c \<Rightarrow> is_word c)"

definition word_at :: "string \<Rightarrow> bool" where
  "word_at s = (case s of [] \<Rightarrow> False | c # _ \<Rightarrow> is_word c)"

fun matches :: "pattern \<Rightarrow> char option \<Rightarrow> string \<Rightarrow> string list" where
  "matches [] p s = [s]"
| "matches (Lit c # as) p [] = []"
| "matches (Lit c # as) p (x # xs) =
     (if upper_char x = upper_char c then matches as (Some x) xs else [])"
| "matches (WordB # as) p s =
     (if word_before p \<noteq> word_at s then matches as p s else [])"
| "matches (Star k # as) p [] = matches as p []"
| "matches (Star k # as) p (x # xs) =
     (if in_class k x then matches (Star k # as) (Some x) xs @ matches as p (x # xs)
      else matches as p (x # xs))"
| "matches (Plus k # as) p [] = []"
| "matches (Plus k # as) p (x # xs) =
     (if in_class k x then matches (Star k # as) (Some x) xs else [])"

text \<open>
  \<^verbatim>\<open>re.search\<close>: the leftmost position with a match. The result is the text from the
  start of the match on, and the text left after the match.
\<close>

fun search_from :: "pattern \<Rightarrow> char option \<Rightarrow> string \<Rightarrow> (string \<times> string) option" where
  "search_from pat p [] = (case matches pat p [] of [] \<Rightarrow> None | r # _ \<Rightarrow> Some ([], r))"
| "search_from pat p (x # xs) =
     (case matches pat p (x # xs) of
        [] \<Rightarrow> search_from pat (Some x) xs
      | r # _ \<Rightarrow> Some (x # xs, r))"

definition re_search :: "pattern \<Rightarrow> string \<Rightarrow> (string \<times> string) option" where
  "re_search pat s = search_from pat None s"

definition lits :: "string \<Rightarrow> pattern" where
  "lits s = map Lit s"

section \<open>utils/security.py\<close>

subsection \<open>QuerySafetyChecker\<close>

text \<open>Each pattern is kept with its source text, which the messages quote; \<open>bsl\<close> is
  the backslash.\<close>

definition bsl :: char where
  "bsl = CHR 0x5C"

definition DESTRUCTIVE_KEYWORDS :: "(string \<times> pattern) list" where
  "DESTRUCTIVE_KEYWORDS =
    [(bsl # ''bDROP'' @ bsl # ''s+TABLE'' @ bsl # ''b'',
        WordB # lits ''DROP'' @ Plus Space # lits ''TABLE'' @ [WordB]),
     (bsl # ''bDROP'' @ bsl # ''s+DATABASE'' @ bsl # ''b'',
        WordB # lits ''DROP'' @ Plus Space # lits ''DATABASE'' @ [WordB]),
     (bsl # ''bDROP'' @ bsl # ''s+SCHEMA'' @ bsl # ''b'',
        WordB # lits ''DROP'' @ Plus Space # lits ''SCHEMA'' @ [WordB]),
     (bsl # ''bTRUNCATE'' @ bsl # ''b'',
        WordB # lits ''TRUNCATE'' @ [WordB]),
     (bsl # ''bDELETE'' @ bsl # ''s+FROM'' @ bsl # ''b'',
        WordB # lits ''DELETE'' @ Plus Space # lits ''FROM'' @ [WordB]),
     (bsl # ''bUPDATE'' @ bsl # ''s+.*'' @ bsl # ''s+SET'' @ bsl # ''b'',
        WordB # lits ''UPDATE'' @ Plus Space # Star Dot # Plus Space # lits ''SET'' @ [WordB])]"

definition DANGEROUS_PATTERNS :: "(string \<times> pattern) list" where
  "DANGEROUS_PATTERNS =
    [(''--'', lits ''--''),
     (''/'' @ bsl # ''*.*'' @ bsl # ''*/'', lits ''/*'' @ Star Dot # lits ''*/''),
     ('';'' @ bsl # ''s*DROP'', Lit CHR '';'' # Star Space # lits ''DROP''),
     (''EXEC'' @ bsl # ''s+'', lits ''EXEC'' @ [Plus Space]),
     (''xp_cmdshell'', lits ''xp_cmdshell'')]"

definition is_destructive :: "string \<Rightarrow> bool \<times> string list" where
  "is_destructive sql =
     (let sql_upper = upper sql;
          issues = map (\<lambda>(src, pat). ''Destructive operation detected: '' @ src)
                     (filter (\<lambda>(src, pat). re_search pat sql_upper \<noteq> None) DESTRUCTIVE_KEYWORDS)
      in (issues \<noteq> [], issues))"

definition check_dangerous_patterns :: "string \<Rightarrow> bool \<times> string list" where
  "check_dangerous_patterns sql =
     (let warnings = map (\<lambda>(src, pat). ''Potentially dangerous pattern: '' @ src)
                       (filter (\<lambda>(src, pat). re_search pat sql \<noteq> None) DANGEROUS_PATTERNS)
      in (warnings \<noteq> [], warnings))"

text \<open>\<open>safety_validate_query\<close> is \<^verbatim>\<open>QuerySafetyChecker.validate_query\<close>; it returns
  \<open>(is_safe, errors, warnings)\<close>.\<close>

definition safety_validate_query :: "string \<Rightarrow> bool \<Rightarrow> bool \<times> string list \<times> string list" where
  "safety_validate_query sql allow_destructive =
     (let (destructive, destructive_issues) = is_destructive sql;
          errors1 = (if destructive \<and> \<not> allow_destructive then destructive_issues else []);
          (has_dangerous, dangerous_warnings) = check_dangerous_patterns sql;
          warnings = (if has_dangerous then dangerous_warnings else []);
          errors2 = errors1 @ (if strip sql = [] then [''Empty SQL query''] else []);
          errors = errors2 @ (if count_sub sql '';'' > 1
                              then [''Multiple SQL statements not allowed''] else [])
      in (errors = [], errors, warnings))"

subsection \<open>RowLimitEnforcer\<close>

definition LIMIT_NUMBER :: pattern where
  "LIMIT_NUMBER = lits ''LIMIT'' @ [Plus Space, Plus Digit]"

text \<open>
  \<open>limit_match\<close> is \<^verbatim>\<open>re.search(r"LIMIT\s+(\d+)", sql, re.IGNORECASE)\<close> followed by
  \<^verbatim>\<open>int(m.group(1))\<close>: the group is what is left of the matched text after the five
  letters and the whitespace.
\<close>

definition matched_text :: "string \<times> string \<Rightarrow> string" where
  "matched_text m = take (length (fst m) - length (snd m)) (fst m)"

definition limit_match :: "string \<Rightarrow> int option" where
  "limit_match sql =
     (case re_search LIMIT_NUMBER sql of
        None \<Rightarrow> None
      | Some m \<Rightarrow> Some (int (parse_nat (dropWhile is_space (drop 5 (matched_text m))))))"

text \<open>
  \<^verbatim>\<open>re.sub(pat, repl, s, flags=re.IGNORECASE)\<close>: every non-overlapping match, from the
  left, is replaced. After an empty match the scan moves one character on.
\<close>

function re_sub_from :: "pattern \<Rightarrow> string \<Rightarrow> char option \<Rightarrow> string \<Rightarrow> string" where
  "re_sub_from pat repl p [] = (case matches pat p [] of [] \<Rightarrow> [] | r # _ \<Rightarrow> repl)"
| "re_sub_from pat repl p (x # xs) =
     (case matches pat p (x # xs) of
        [] \<Rightarrow> x # re_sub_from pat repl (Some x) xs
      | r # _ \<Rightarrow>
          if length r \<le> length xs
          then repl @ re_sub_from pat repl (Some (last (take (Suc (length xs) - length r) (x # xs)))) r
          else repl @ x # re_sub_from pat repl (Some x) xs)"
  by pat_completeness auto
termination
  by (relation "measure (\<lambda>(pat, repl, p, s). length s)") auto

definition re_sub :: "pattern \<Rightarrow> string \<Rightarrow> string \<Rightarrow> string" where
  "re_sub pat repl s = re_sub_from pat repl None s"

definition add_limit_clause :: "string \<Rightarrow> int \<Rightarrow> string" where
  "add_limit_clause sql max_rows =
     (let sql_upper = upper sql;
          appended = rstrip_char CHR '';'' sql @ CHR 0x0A # ''LIMIT '' @ show_int max_rows
      in if contains sql_upper ''LIMIT'' then
           (case limit_match sql of
              Some existing_limit \<Rightarrow>
                if existing_limit \<le> max_rows then sql
                else re_sub LIMIT_NUMBER (''LIMIT '' @ show_int max_rows) sql
            | None \<Rightarrow> appended)
         else appended)"

definition estimate_result_size :: "string \<Rightarrow> int" where
  "estimate_result_size sql = (case limit_match sql of Some n \<Rightarrow> n | None \<Rightarrow> - 1)"

section \<open>models.py\<close>

text \<open>
  Confidence scores and costs are Python floats; they are modelled as exact reals.
  Timing fields, metadata dictionaries and log output are left out.
\<close>

record SQLQuery =
  sql :: string
  explanation :: "string option"
  tables_used :: "string list"
  estimated_rows :: "int option"
  confidence_score :: "real option"

record ValidationResult =
  is_valid :: bool
  errors :: "string list"
  warnings :: "string list"
  estimated_cost :: "real option"
  safe_to_execute :: bool

record 'a AgentResult =
  success :: bool
  data :: "'a option"
  error :: "string option"

section \<open>agents/validation\_agent.py\<close>

record ValidationAgent =
  allow_destructive :: bool
  max_rows :: int

definition check_syntax :: "string \<Rightarrow> bool" where
  "check_syntax stmt =
     (let sql_upper = strip (upper stmt)
      in if \<not> (startswith sql_upper ''SELECT'' \<or> startswith sql_upper ''WITH'') then False
         else if count_sub stmt ''('' \<noteq> count_sub stmt '')'' then False
         else if startswith sql_upper ''SELECT'' \<and> \<not> contains sql_upper ''FROM'' then False
         else True)"

definition window_functions :: "string list" where
  "window_functions = [''ROW_NUMBER'', ''RANK'', ''DENSE_RANK'', ''LAG'', ''LEAD'']"

definition estimate_cost :: "string \<Rightarrow> string list \<Rightarrow> real" where
  "estimate_cost stmt tables =
     (let sql_upper = upper stmt;
          cost0 = 0 + real (length tables) * (1 / 10);
          join_count = count_sub sql_upper ''JOIN'';
          cost1 = cost0 + real join_count * (15 / 100);
          subquery_count = int (count_sub sql_upper ''SELECT'') - 1;
          cost2 = cost1 + real_of_int subquery_count * (2 / 10);
          cost3 = (if contains sql_upper ''GROUP BY'' then cost2 + 15 / 100 else cost2);
          cost4 = (if contains sql_upper ''ORDER BY'' \<and> \<not> contains sql_upper ''LIMIT''
                   then cost3 + 1 / 10 else cost3);
          cost5 = (if contains sql_upper ''DISTINCT'' then cost4 + 1 / 10 else cost4);
          cost6 = (if list_ex (\<lambda>func. contains sql_upper func) window_functions
                   then cost5 + 15 / 100 else cost5)
      in min cost6 1)"

text \<open>
  \<open>format_2f\<close> is the format specification \<^verbatim>\<open>:.2f\<close>: two decimals, the nearest value,
  a tie going to the even digit.
\<close>

definition round_half_even :: "real \<Rightarrow> int" where
  "round_half_even x =
     (let f = \<lfloor>x\<rfloor>; d = x - of_int f
      in if d < 1 / 2 then f else if d > 1 / 2 then f + 1 else if even f then f else f + 1)"

definition format_2f :: "real \<Rightarrow> string" where
  "format_2f x =
     (let h = nat (round_half_even (\<bar>x\<bar> * 100));
          frac = h mod 100
      in (if x < 0 then [CHR ''-''] else []) @ show_nat (h div 100) @ [CHR ''.'']
           @ [char_of (48 + frac div 10), char_of (48 + frac mod 10)])"

text \<open>
  \<open>validate_query\<close> returns the agent's result together with the candidate query, whose
  \<open>sql\<close> field the source assigns in place. The test \<^verbatim>\<open>if sql_query.confidence_score and ...\<close>
  is Python truthiness: \<^verbatim>\<open>None\<close> and \<^verbatim>\<open>0.0\<close> are both false.
\<close>

definition validate_query ::
  "ValidationAgent \<Rightarrow> SQLQuery \<Rightarrow> string \<Rightarrow> ValidationResult AgentResult \<times> SQLQuery" where
  "validate_query self sql_query user_query =
     (let s = sql sql_query;
          errors0 = (if \<not> check_syntax s then [''SQL syntax appears invalid''] else []);
          (is_safe, safety_errors, safety_warnings) =
             safety_validate_query s (allow_destructive self);
          errors1 = errors0 @ safety_errors;
          warnings1 = safety_warnings;
          estimated = estimate_result_size s;
          enforce = (estimated = - 1 \<or> estimated > max_rows self);
          warnings2 = (if enforce
             then warnings1 @ [''Query may return many rows. Limit will be enforced (''
                                 @ show_int (max_rows self) @ '' rows)'']
             else warnings1);
          sql_query' = (if enforce then sql_query\<lparr>sql := add_limit_clause s (max_rows self)\<rparr>
                        else sql_query);
          cost = estimate_cost s (tables_used sql_query');
          warnings3 = (case confidence_score sql_query' of
             None \<Rightarrow> warnings2
           | Some c \<Rightarrow> if c \<noteq> 0 \<and> c < 6 / 10
                then warnings2 @ [''Low confidence score ('' @ format_2f c
                                    @ ''). Query may not be accurate.'']
                else warnings2);
          safe = (errors1 = []);
          validation_result = \<lparr>is_valid = safe, errors = errors1, warnings = warnings3,
             estimated_cost = Some cost, safe_to_execute = safe\<rparr>
      in (\<lparr>success = True, data = Some validation_result, error = None\<rparr>, sql_query'))"

section \<open>Schema metadata: models.py and database/base.py\<close>

text \<open>A column is the dictionary \<^verbatim>\<open>{"name": .., "type": .., "nullable": ..}\<close>.\<close>

record Column =
  col_name :: string
  col_type :: string
  nullable :: bool

record TableMetadata =
  name :: string
  schema :: string
  columns :: "Column list"
  row_count :: "int option"
  description :: "string option"

record Relationship =
  from_table :: string
  from_column :: string
  to_table :: string
  to_column :: string

record SchemaContext =
  tables :: "TableMetadata list"
  relationships :: "Relationship list"
  common_queries :: "string list"
  business_terms :: "(string \<times> string) list"

text \<open>
  The database behind a connector is outside the program: what SQLAlchemy's inspector
  and the row-count query answer is a parameter. \<open>Inl\<close> carries the text of a raised
  exception.
\<close>

record Database =
  inspect_table_names :: "string option \<Rightarrow> string + string list"
  inspect_columns :: "string \<Rightarrow> string option \<Rightarrow> string + Column list"
  select_count :: "string \<Rightarrow> string + int"

text \<open>The connector's mutable state is its cache slot, \<^verbatim>\<open>self._schema_cache\<close>.\<close>

record DatabaseConnector =
  schema_cache :: "TableMetadata list option"

text \<open>Calls that reach the database are recorded, to speak about live fetches.\<close>

datatype db_call = GetTables "string option" | GetTableMetadata string "string option"

definition truthy :: "string option \<Rightarrow> bool" where
  "truthy s = (case s of None \<Rightarrow> False | Some v \<Rightarrow> v \<noteq> [])"

definition get_table_metadata :: "Database \<Rightarrow> string \<Rightarrow> string option \<Rightarrow> string + TableMetadata" where
  "get_table_metadata db table_name schema_name =
     (case inspect_columns db table_name schema_name of
        Inl e \<Rightarrow> Inl e
      | Inr cols \<Rightarrow>
          let full_name = (if truthy schema_name then the schema_name @ ''.'' @ table_name
                           else table_name);
              count = (case select_count db full_name of Inl e \<Rightarrow> None | Inr n \<Rightarrow> Some n)
          in Inr \<lparr>name = table_name,
                  schema = (if truthy schema_name then the schema_name else ''default''),
                  columns = cols, row_count = count, description = None\<rparr>)"

text \<open>The loop over the table names skips a table whose metadata cannot be read.\<close>

fun collect_metadata :: "Database \<Rightarrow> string option \<Rightarrow> string list \<Rightarrow> TableMetadata list" where
  "collect_metadata db schema_name [] = []"
| "collect_metadata db schema_name (t # ts) =
     (case get_table_metadata db t schema_name of
        Inl e \<Rightarrow> collect_metadata db schema_name ts
      | Inr m \<Rightarrow> m # collect_metadata db schema_name ts)"

definition get_all_table_metadata ::
  "Database \<Rightarrow> DatabaseConnector \<Rightarrow> string option \<Rightarrow> bool
     \<Rightarrow> (string + TableMetadata list) \<times> DatabaseConnector \<times> db_call list" where
  "get_all_table_metadata db self schema_name use_cache =
     (if use_cache \<and> schema_cache self \<noteq> None then (Inr (the (schema_cache self)), self, [])
      else
        (case inspect_table_names db schema_name of
           Inl e \<Rightarrow> (Inl e, self, [GetTables schema_name])
         | Inr ts \<Rightarrow>
             let metadata_list = collect_metadata db schema_name ts
             in (Inr metadata_list, self\<lparr>schema_cache := Some metadata_list\<rparr>,
                 GetTables schema_name # map (\<lambda>t. GetTableMetadata t schema_name) ts)))"

definition clear_cache :: "DatabaseConnector \<Rightarrow> DatabaseConnector" where
  "clear_cache self = self\<lparr>schema_cache := None\<rparr>"

section \<open>agents/schema\_agent.py\<close>

text \<open>\<^verbatim>\<open>s.replace(old, new)\<close> replaces every non-overlapping occurrence, from the left.\<close>

function replace_all :: "string \<Rightarrow> string \<Rightarrow> string \<Rightarrow> string" where
  "replace_all [] old new = (if old = [] then new else [])"
| "replace_all (x # xs) old new =
     (if old = [] then new @ x # replace_all xs old new
      else if startswith (x # xs) old then new @ replace_all (drop (length old - 1) xs) old new
      else x # replace_all xs old new)"
  by pat_completeness auto
termination
  by (relation "measure (\<lambda>(s, old, new). length s)") auto

text \<open>
  The source holds the query words in a set and asks \<^verbatim>\<open>any(word in ... for word in
  query_words)\<close>; a list gives the same answer.
\<close>

definition table_is_relevant :: "string list \<Rightarrow> TableMetadata \<Rightarrow> bool" where
  "table_is_relevant query_words table =
     (let table_name_lower = lower (name table);
          column_names = map (\<lambda>col. lower (col_name col)) (columns table)
      in list_ex (\<lambda>word. contains table_name_lower word) query_words
         \<or> list_ex (\<lambda>cn. list_ex (\<lambda>word. contains cn word) query_words) column_names)"

definition filter_relevant_tables :: "string \<Rightarrow> TableMetadata list \<Rightarrow> TableMetadata list" where
  "filter_relevant_tables user_query all_tables =
     (let query_lower = lower user_query;
          query_words = split_ws query_lower;
          relevant_tables = filter (table_is_relevant query_words) all_tables
      in if relevant_tables = [] then take 20 all_tables else relevant_tables)"

definition column_relationships :: "TableMetadata list \<Rightarrow> TableMetadata \<Rightarrow> Column \<Rightarrow> Relationship list" where
  "column_relationships tbls table column =
     (let cn = lower (col_name column)
      in if endswith cn ''_id'' \<or> endswith cn ''id'' then
           (let potential_table = replace_all (replace_all cn ''_id'' '''') ''id'' ''''
            in map (\<lambda>other_table.
                      \<lparr>from_table = name table, from_column = col_name column,
                       to_table = name other_table, to_column = ''id''\<rparr>)
                   (filter (\<lambda>other_table. lower (name other_table) = potential_table) tbls))
         else [])"

definition infer_relationships :: "TableMetadata list \<Rightarrow> Relationship list" where
  "infer_relationships tbls =
     concat (map (\<lambda>table. concat (map (column_relationships tbls table) (columns table))) tbls)"

definition get_schema_context ::
  "Database \<Rightarrow> DatabaseConnector \<Rightarrow> string \<Rightarrow> string option \<Rightarrow> bool
     \<Rightarrow> SchemaContext AgentResult \<times> DatabaseConnector \<times> db_call list" where
  "get_schema_context db conn user_query schema_name use_cache =
     (case get_all_table_metadata db conn schema_name use_cache of
        (Inl e, conn', calls) \<Rightarrow> (\<lparr>success = False, data = None, error = Some e\<rparr>, conn', calls)
      | (Inr all_tables, conn', calls) \<Rightarrow>
          let relevant_tables = filter_relevant_tables user_query all_tables;
              schema_context = \<lparr>tables = relevant_tables,
                 relationships = infer_relationships relevant_tables,
                 common_queries = [], business_terms = []\<rparr>
          in (\<lparr>success = True, data = Some schema_context, error = None\<rparr>, conn', calls))"

section \<open>orchestrator.py\<close>

datatype QueryStatus = PENDING | VALIDATING | EXECUTING | SUCCESS | FAILED | TIMEOUT

text \<open>
  The fields of \<^verbatim>\<open>QueryResult\<close> and \<^verbatim>\<open>ChatbotResponse\<close> whose names other records
  already use carry a prefix (\<^verbatim>\<open>data\<close>, \<^verbatim>\<open>columns\<close>, \<^verbatim>\<open>row_count\<close>, \<^verbatim>\<open>sql\<close>).
\<close>

record QueryResult =
  result_data :: "(string \<times> string) list list"
  result_columns :: "string list"
  result_row_count :: int
  truncated :: bool

record ChatbotResponse =
  status :: QueryStatus
  user_query :: string
  response_sql :: "SQLQuery option"
  validation :: "ValidationResult option"
  result :: "QueryResult option"
  chart_html :: "string option"
  error_message :: "string option"

record Settings =
  max_query_rows :: int
  allow_destructive_queries :: bool

text \<open>
  SQL generation, execution and chart generation call a language model and the database;
  their answers are parameters. Each may return an \<^verbatim>\<open>AgentResult\<close> or raise (\<open>Inl\<close>
  with the exception's text).
\<close>

record Collaborators =
  generate_sql :: "string \<Rightarrow> SchemaContext option \<Rightarrow> string + SQLQuery AgentResult"
  execute_query :: "SQLQuery option \<Rightarrow> int \<Rightarrow> string + QueryResult AgentResult"
  generate_visualization :: "QueryResult \<Rightarrow> string \<Rightarrow> string + string AgentResult"

record ChatbotOrchestrator =
  settings :: Settings
  database :: Database
  db_connector :: DatabaseConnector
  collaborators :: Collaborators

text \<open>The stages a run goes through are recorded in order, with the SQL handed to execution.\<close>

datatype stage_call =
    SchemaCall "db_call list"
  | GenerationCall
  | ValidationCall
  | ExecutionCall "string option"
  | VisualizationCall

definition validation_agent :: "ChatbotOrchestrator \<Rightarrow> ValidationAgent" where
  "validation_agent self =
     \<lparr>allow_destructive = allow_destructive_queries (settings self),
      max_rows = max_query_rows (settings self)\<rparr>"

text \<open>\<^verbatim>\<open>f"{x}"\<close> of an optional string, and \<^verbatim>\<open>sep.join(xs)\<close>.\<close>

definition str_of :: "string option \<Rightarrow> string" where
  "str_of s = (case s of None \<Rightarrow> ''None'' | Some v \<Rightarrow> v)"

fun join :: "string \<Rightarrow> string list \<Rightarrow> string" where
  "join sep [] = []"
| "join sep [x] = x"
| "join sep (x # y # ys) = x @ sep @ join sep (y # ys)"

text \<open>The text of the \<^verbatim>\<open>AttributeError\<close> raised by an attribute access on \<^verbatim>\<open>None\<close>.\<close>

definition attribute_error :: "string \<Rightarrow> string" where
  "attribute_error attr =
     CHR 0x27 # ''NoneType'' @ CHR 0x27 # '' object has no attribute '' @ CHR 0x27 # attr @ [CHR 0x27]"

text \<open>
  The validation agent run on what the generation stage returned. On \<^verbatim>\<open>None\<close> the
  attribute access inside the agent's \<^verbatim>\<open>try\<close> fails and the agent reports it.
\<close>

definition validate_candidate ::
  "ValidationAgent \<Rightarrow> SQLQuery option \<Rightarrow> string \<Rightarrow> ValidationResult AgentResult \<times> SQLQuery option" where
  "validate_candidate agent candidate uq =
     (case candidate of
        None \<Rightarrow> (\<lparr>success = False, data = None,
                   error = Some (attribute_error ''sql'')\<rparr>, None)
      | Some q \<Rightarrow> (case validate_query agent q uq of (r, q') \<Rightarrow> (r, Some q')))"

definition failed :: "ChatbotResponse \<Rightarrow> string \<Rightarrow> ChatbotResponse" where
  "failed response msg = response\<lparr>status := FAILED, error_message := Some msg\<rparr>"

definition unexpected :: "ChatbotResponse \<Rightarrow> string \<Rightarrow> ChatbotResponse" where
  "unexpected response e = failed response (''Unexpected error: '' @ e)"

text \<open>Steps 4 to 6 of \<^verbatim>\<open>process_query\<close>, entered after the safety gate.\<close>

definition execute_stage ::
  "ChatbotOrchestrator \<Rightarrow> ChatbotResponse \<Rightarrow> string \<Rightarrow> int \<Rightarrow> bool
     \<Rightarrow> ChatbotResponse \<times> stage_call list" where
  "execute_stage self response0 uq request_max_rows include_visualization =
     (let response = response0\<lparr>status := EXECUTING\<rparr>;
          executed = [ExecutionCall (map_option sql (response_sql response))]
      in case execute_query (collaborators self) (response_sql response) request_max_rows of
           Inl e \<Rightarrow> (unexpected response e, executed)
         | Inr execution_result \<Rightarrow>
             if \<not> success execution_result
             then (failed response (''Execution failed: '' @ str_of (error execution_result)),
                   executed)
             else
               (let response1 = response\<lparr>result := data execution_result\<rparr>
                in if \<not> include_visualization then (response1\<lparr>status := SUCCESS\<rparr>, executed)
                   else
                     (case result response1 of
                        None \<Rightarrow> (unexpected response1
                            (attribute_error ''row_count''), executed)
                      | Some qr \<Rightarrow>
                          if \<not> result_row_count qr > 0
                          then (response1\<lparr>status := SUCCESS\<rparr>, executed)
                          else
                            (case generate_visualization (collaborators self) qr uq of
                               Inl e \<Rightarrow> (unexpected response1 e, executed @ [VisualizationCall])
                             | Inr viz_result \<Rightarrow>
                                 let response2 =
                                   (if success viz_result \<and> truthy (data viz_result)
                                    then response1\<lparr>chart_html := data viz_result\<rparr>
                                    else response1)
                                 in (response2\<lparr>status := SUCCESS\<rparr>,
                                     executed @ [VisualizationCall])))))"

text \<open>
  \<open>process_query\<close> returns the response, the orchestrator with its connector's cache as
  the run left it, and the stages called. The arguments \<^verbatim>\<open>user_id\<close>, \<^verbatim>\<open>context\<close> and
  \<^verbatim>\<open>database_override\<close> only reach the log and the unused request object.
\<close>

definition process_query ::
  "ChatbotOrchestrator \<Rightarrow> string \<Rightarrow> int option \<Rightarrow> bool
     \<Rightarrow> ChatbotResponse \<times> ChatbotOrchestrator \<times> stage_call list" where
  "process_query self uq max_rows_arg include_visualization =
     (let request_max_rows =
            (case max_rows_arg of
               None \<Rightarrow> max_query_rows (settings self)
             | Some m \<Rightarrow> if m = 0 then max_query_rows (settings self) else m);
          response = \<lparr>status = PENDING, user_query = uq, response_sql = None,
             validation = None, result = None, chart_html = None, error_message = None\<rparr>
      in case get_schema_context (database self) (db_connector self) uq None True of
           (schema_result, conn', calls) \<Rightarrow>
        (let self' = self\<lparr>db_connector := conn'\<rparr>;
             t1 = [SchemaCall calls]
         in if \<not> success schema_result
            then (failed response (''Failed to get schema: '' @ str_of (error schema_result)),
                  self', t1)
            else
              (case generate_sql (collaborators self) uq (data schema_result) of
                 Inl e \<Rightarrow> (unexpected response e, self', t1 @ [GenerationCall])
               | Inr sql_result \<Rightarrow>
                   if \<not> success sql_result
                   then (failed response
                           (''Failed to generate SQL: '' @ str_of (error sql_result)),
                         self', t1 @ [GenerationCall])
                   else
                     (let response1 = response\<lparr>response_sql := data sql_result,
                            status := VALIDATING\<rparr>;
                          t3 = t1 @ [GenerationCall, ValidationCall]
                      in case validate_candidate (validation_agent self)
                                (response_sql response1) uq of
                           (validation_result, candidate') \<Rightarrow>
                        (let response2 = response1\<lparr>response_sql := candidate'\<rparr>
                         in if \<not> success validation_result
                            then (failed response2
                                    (''Validation failed: '' @ str_of (error validation_result)),
                                  self', t3)
                            else
                              (let response3 = response2\<lparr>validation := data validation_result\<rparr>
                               in case validation response3 of
                                    None \<Rightarrow> (unexpected response3
                                       (attribute_error ''safe_to_execute''),
                                       self', t3)
                                  | Some v \<Rightarrow>
                                      if \<not> safe_to_execute v
                                      then (failed response3
                                              (''Query failed safety validation: ''
                                                 @ join ''; '' (errors v)),
                                            self', t3)
                                      else
                                        (case execute_stage self' response3 uq request_max_rows
                                                include_visualization of
                                           (response4, t4) \<Rightarrow> (response4, self', t3 @ t4))))))))"

section \<open>Notions used to state the properties\<close>


text \<open>
  The domain on which the model follows the interpreter. Text is ASCII: there the
  character classes and case mappings above are those of \<^verbatim>\<open>str\<close> and \<^verbatim>\<open>re\<close>, which
  on other text also know non-ASCII letters, digits and spaces. Numbers convert:
  CPython refuses, with a \<^verbatim>\<open>ValueError\<close>, to turn more than 4300 digits into an
  \<^verbatim>\<open>int\<close> or an \<^verbatim>\<open>int\<close> of more than 4300 digits into text. \<open>limit_number_convertible\<close>
  says so of the number that \<^verbatim>\<open>int(limit_match.group(1))\<close> reads, \<open>int_convertible\<close> of
  a number that is formatted.
\<close>

definition ascii_text :: "string \<Rightarrow> bool" where
  "ascii_text s = list_all (\<lambda>c. (of_char c :: nat) < 128) s"

definition int_max_str_digits :: nat where
  "int_max_str_digits = 4300"

definition limit_number_convertible :: "string \<Rightarrow> bool" where
  "limit_number_convertible s =
     (case re_search LIMIT_NUMBER s of
        None \<Rightarrow> True
      | Some m \<Rightarrow> length (dropWhile is_space (drop 5 (matched_text m))) \<le> int_max_str_digits)"

definition int_convertible :: "int \<Rightarrow> bool" where
  "int_convertible i = (length (show_nat (nat \<bar>i\<bar>)) \<le> int_max_str_digits)"

text \<open>
  A keyword found between the texts \<open>before\<close> and \<open>after\<close> stands as whole words: no word
  character touches it on either side.
\<close>

definition whole_words :: "string \<Rightarrow> string \<Rightarrow> bool" where
  "whole_words before after = (\<not> word_at (rev before) \<and> \<not> word_at after)"

definition destructive_message :: "string \<Rightarrow> bool" where
  "destructive_message e = startswith e ''Destructive operation detected''"

definition low_confidence_message :: "string \<Rightarrow> bool" where
  "low_confidence_message w = startswith w ''Low confidence score''"

text \<open>
  What each stage of a run answers, as \<open>process_query\<close> calls it: the schema agent on the
  query text, the generator on the schema context, the validation agent on the generated
  candidate (when the run gets that far), and the executor on the validated candidate.
\<close>

definition schema_stage :: "ChatbotOrchestrator \<Rightarrow> string \<Rightarrow> SchemaContext AgentResult" where
  "schema_stage self uq = fst (get_schema_context (database self) (db_connector self) uq None True)"

definition generation_stage :: "ChatbotOrchestrator \<Rightarrow> string \<Rightarrow> string + SQLQuery AgentResult" where
  "generation_stage self uq = generate_sql (collaborators self) uq (data (schema_stage self uq))"

definition validation_stage ::
  "ChatbotOrchestrator \<Rightarrow> string \<Rightarrow> (ValidationResult AgentResult \<times> SQLQuery option) option" where
  "validation_stage self uq =
     (if success (schema_stage self uq) then
        (case generation_stage self uq of
           Inl e \<Rightarrow> None
         | Inr sql_result \<Rightarrow>
             if success sql_result
             then Some (validate_candidate (validation_agent self) (data sql_result) uq)
             else None)
      else None)"

definition effective_max_rows :: "ChatbotOrchestrator \<Rightarrow> int option \<Rightarrow> int" where
  "effective_max_rows self max_rows_arg =
     (case max_rows_arg of
        None \<Rightarrow> max_query_rows (settings self)
      | Some m \<Rightarrow> if m = 0 then max_query_rows (settings self) else m)"

definition execution_stage ::
  "ChatbotOrchestrator \<Rightarrow> string \<Rightarrow> int option \<Rightarrow> (string + QueryResult AgentResult) option" where
  "execution_stage self uq max_rows_arg =
     (case validation_stage self uq of
        None \<Rightarrow> None
      | Some (validation_result, candidate) \<Rightarrow>
          (case data validation_result of
             None \<Rightarrow> None
           | Some v \<Rightarrow>
               if success validation_result \<and> safe_to_execute v
               then Some (execute_query (collaborators self) candidate
                            (effective_max_rows self max_rows_arg))
               else None))"

definition executions :: "stage_call list \<Rightarrow> string option list" where
  "executions trace = concat (map (\<lambda>c. case c of ExecutionCall s \<Rightarrow> [s] | _ \<Rightarrow> []) trace)"

text \<open>A run has stopped before execution: failed, with a message, nothing executed or drawn.\<close>

definition stopped :: "ChatbotResponse \<Rightarrow> stage_call list \<Rightarrow> bool" where
  "stopped resp trace =
     (status resp = FAILED \<and> (\<exists>msg. error_message resp = Some msg \<and> msg \<noteq> [])
      \<and> executions trace = [] \<and> VisualizationCall \<notin> set trace)"




definition first :: "'a list \<Rightarrow> 'a option" where
  "first xs = (case xs of [] \<Rightarrow> None | x # _ \<Rightarrow> Some x)"




section \<open>Example inputs\<close>

definition mk_table :: "string \<Rightarrow> string list \<Rightarrow> TableMetadata" where
  "mk_table n cs =
     \<lparr>name = n, schema = ''public'',
      columns = map (\<lambda>c. \<lparr>col_name = c, col_type = ''int'', nullable = False\<rparr>) cs,
      row_count = None, description = None\<rparr>"

definition mk_query :: "string \<Rightarrow> real option \<Rightarrow> SQLQuery" where
  "mk_query s c =
     \<lparr>sql = s, explanation = None, tables_used = [], estimated_rows = None,
      confidence_score = c\<rparr>"

definition agent_1000 :: ValidationAgent where
  "agent_1000 = \<lparr>allow_destructive = False, max_rows = 1000\<rparr>"

text \<open>A database with two schemas, \<^verbatim>\<open>sales\<close> holding one table and \<^verbatim>\<open>hr\<close> another.\<close>

definition two_schemas :: Database where
  "two_schemas =
     \<lparr>inspect_table_names =
        (\<lambda>s. if s = Some ''sales'' then Inr [''orders'']
              else if s = Some ''hr'' then Inr [''staff''] else Inr []),
      inspect_columns =
        (\<lambda>t s. Inr [\<lparr>col_name = ''id'', col_type = ''INTEGER'', nullable = False\<rparr>]),
      select_count = (\<lambda>n. Inr 3)\<rparr>"

definition sales_catalog :: "TableMetadata list" where
  "sales_catalog =
     [\<lparr>name = ''orders'', schema = ''sales'',
       columns = [\<lparr>col_name = ''id'', col_type = ''INTEGER'', nullable = False\<rparr>],
       row_count = Some 3, description = None\<rparr>]"

definition hr_catalog :: "TableMetadata list" where
  "hr_catalog =
     [\<lparr>name = ''staff'', schema = ''hr'',
       columns = [\<lparr>col_name = ''id'', col_type = ''INTEGER'', nullable = False\<rparr>],
       row_count = Some 3, description = None\<rparr>]"

definition fresh_connector :: DatabaseConnector where
  "fresh_connector = \<lparr>schema_cache = None\<rparr>"

definition sales_connector :: DatabaseConnector where
  "sales_connector = \<lparr>schema_cache = Some sales_catalog\<rparr>"

text \<open>
  An orchestrator over a database with the tables \<^verbatim>\<open>users\<close> and \<^verbatim>\<open>orders\<close>, whose
  generator answers every question with the given SQL, whose executor returns one row and
  whose chart generator returns a fragment of HTML.
\<close>

definition shop_database :: Database where
  "shop_database =
     \<lparr>inspect_table_names = (\<lambda>s. Inr [''users'', ''orders'']),
      inspect_columns =
        (\<lambda>t s. Inr [\<lparr>col_name = ''id'', col_type = ''INTEGER'', nullable = False\<rparr>]),
      select_count = (\<lambda>n. Inr 3)\<rparr>"

definition one_row :: QueryResult where
  "one_row = \<lparr>result_data = [[(''id'', ''1'')]], result_columns = [''id''],
              result_row_count = 1, truncated = False\<rparr>"

definition answering :: "string \<Rightarrow> Collaborators" where
  "answering s =
     \<lparr>generate_sql =
        (\<lambda>uq ctx. Inr \<lparr>success = True, data = Some (mk_query s (Some (9 / 10))), error = None\<rparr>),
      execute_query = (\<lambda>q m. Inr \<lparr>success = True, data = Some one_row, error = None\<rparr>),
      generate_visualization =
        (\<lambda>qr uq. Inr \<lparr>success = True, data = Some ''<div/>'', error = None\<rparr>)\<rparr>"

definition orchestrator_with :: "string \<Rightarrow> ChatbotOrchestrator" where
  "orchestrator_with s =
     \<lparr>settings = \<lparr>max_query_rows = 1000, allow_destructive_queries = False\<rparr>,
      database = shop_database, db_connector = fresh_connector,
      collaborators = answering s\<rparr>"

section \<open>Evaluation of the character functions\<close>


lemma lower_char_code [code]:
  "lower_char (Char b0 b1 b2 b3 b4 b5 b6 b7) =
     (if \<not> b5 \<and> b6 \<and> \<not> b7 \<and> (b0 \<or> b1 \<or> b2 \<or> b3 \<or> b4) \<and> \<not> (b4 \<and> b3 \<and> (b2 \<or> (b1 \<and> b0)))
      then Char b0 b1 b2 b3 b4 True b6 b7 else Char b0 b1 b2 b3 b4 b5 b6 b7)"
  by (cases b0; cases b1; cases b2; cases b3; cases b4; cases b5; cases b6; cases b7)
     (simp_all add: lower_char_def char_of_def bit_0)

lemma is_space_code [code]:
  "is_space (Char b0 b1 b2 b3 b4 b5 b6 b7) =
     (\<not> b7 \<and> \<not> b6 \<and>
       ((\<not> b5 \<and> \<not> b4 \<and> b3 \<and> ((\<not> b2 \<and> (b0 \<or> b1)) \<or> (b2 \<and> \<not> b1)))
        \<or> (\<not> b5 \<and> b4 \<and> b3 \<and> b2)
        \<or> (b5 \<and> \<not> b4 \<and> \<not> b3 \<and> \<not> b2 \<and> \<not> b1 \<and> \<not> b0)))"
  by (cases b0; cases b1; cases b2; cases b3; cases b4; cases b5; cases b6; cases b7)
     (simp_all add: is_space_def)


lemma is_word_code [code]:
  "is_word (Char b0 b1 b2 b3 b4 b5 b6 b7) =
     (\<not> b7 \<and>
       ((\<not> b6 \<and> b5 \<and> b4 \<and> (\<not> b3 \<or> (\<not> b2 \<and> \<not> b1)))
        \<or> (b6 \<and> (b0 \<or> b1 \<or> b2 \<or> b3 \<or> b4) \<and> \<not> (b4 \<and> b3 \<and> (b2 \<or> (b1 \<and> b0))))
        \<or> (b6 \<and> \<not> b5 \<and> b4 \<and> b3 \<and> b2 \<and> b1 \<and> b0)))"
  by (cases b0; cases b1; cases b2; cases b3; cases b4; cases b5; cases b6; cases b7)
     (simp_all add: is_word_def)

section \<open>Properties\<close>

subsection \<open>Cost estimator\<close>

lemma estimate_cost_le_1: "estimate_cost stmt ts \<le> 1"
  by (simp add: estimate_cost_def Let_def)

text \<open>
  C4. The cost estimator is claimed to stay within [0,1] and to count subqueries with a
  floor of 0. For the statement \<^verbatim>\<open>DROP TABLE users\<close> with no tables listed the count of
  \<^verbatim>\<open>SELECT\<close> is 0, the subquery term is \<open>-1 * 0.2\<close>, and the estimate is \<open>-0.2\<close>.
\<close>

theorem C4_estimate_cost_negative:
  "estimate_cost ''DROP TABLE users'' [] = - (1 / 5) \<and> estimate_cost ''DROP TABLE users'' [] < 0"
  by code_simp

subsection \<open>Confidence check\<close>

text \<open>
  C9. A confidence score that is present and below 0.6 is claimed to add a warning. For
  the score 0.0 the validation of \<^verbatim>\<open>SELECT id FROM users LIMIT 10\<close> returns no warning at
  all, while the score 0.5 on the same statement gives the low-confidence warning.
\<close>

theorem C9_zero_confidence_no_warning:
  "map_option warnings (data (fst (validate_query agent_1000
      (mk_query ''SELECT id FROM users LIMIT 10'' (Some 0)) ''list users''))) = Some []
   \<and> map_option warnings (data (fst (validate_query agent_1000
      (mk_query ''SELECT id FROM users LIMIT 10'' (Some (1 / 2))) ''list users'')))
     = Some [''Low confidence score (0.50). Query may not be accurate.'']"
  by code_simp

subsection \<open>Relationship inference\<close>

text \<open>
  C7. A relationship is claimed for every column whose lowercase name, with the suffix
  \<^verbatim>\<open>_id\<close> stripped, names a table of the set. For the tables \<^verbatim>\<open>video\<close> and \<^verbatim>\<open>clips\<close>, the
  column \<^verbatim>\<open>clips.video_id\<close> ends in \<^verbatim>\<open>_id\<close> and \<^verbatim>\<open>video\<close> is a table, yet no relationship is
  inferred: the two \<^verbatim>\<open>replace\<close> calls turn \<^verbatim>\<open>video_id\<close> into \<^verbatim>\<open>veo\<close>.
\<close>

theorem C7_video_id_not_inferred:
  "infer_relationships [mk_table ''video'' [''id''], mk_table ''clips'' [''id'', ''video_id'']] = []
   \<and> replace_all (replace_all ''video_id'' ''_id'' '''') ''id'' '''' = ''veo''"
  by code_simp

subsection \<open>Schema cache\<close>

text \<open>
  C6, as stated: a lookup for one schema name never returns a catalog cached for another
  schema name. After the catalog of \<^verbatim>\<open>sales\<close> was fetched, a lookup for \<^verbatim>\<open>hr\<close> returns the
  \<^verbatim>\<open>sales\<close> catalog, which is not what the database holds for \<^verbatim>\<open>hr\<close>.
\<close>

theorem C6_counterexample:
  "get_all_table_metadata two_schemas fresh_connector (Some ''sales'') True
     = (Inr sales_catalog, sales_connector,
        [GetTables (Some ''sales''), GetTableMetadata ''orders'' (Some ''sales'')])
   \<and> get_all_table_metadata two_schemas sales_connector (Some ''hr'') True
     = (Inr sales_catalog, sales_connector, [])
   \<and> get_all_table_metadata two_schemas fresh_connector (Some ''hr'') True
     = (Inr hr_catalog, \<lparr>schema_cache = Some hr_catalog\<rparr>,
        [GetTables (Some ''hr''), GetTableMetadata ''staff'' (Some ''hr'')])
   \<and> sales_catalog \<noteq> hr_catalog"
  by code_simp

text \<open>
  C6, amended: a connector caches one catalog, whatever the schema name. With
  \<^verbatim>\<open>use_cache\<close> set and the cache populated, a lookup for any schema name returns the
  cached catalog, leaves the connector as it is and makes no call to the database.
\<close>

theorem C6_cache_hit:
  "schema_cache self = Some catalog \<Longrightarrow>
   get_all_table_metadata db self schema_name True = (Inr catalog, self, [])"
  by (simp add: get_all_table_metadata_def)

theorem C6_cache_hit_witness:
  "schema_cache sales_connector = Some sales_catalog
   \<and> get_all_table_metadata two_schemas sales_connector (Some ''hr'') True
       = (Inr sales_catalog, sales_connector, [])"
proof -
  have h: "schema_cache sales_connector = Some sales_catalog"
    by (simp add: sales_connector_def)
  from C6_cache_hit [OF h, of two_schemas "Some ''hr''"] h show ?thesis
    by simp
qed

subsection \<open>Pipeline orchestrator\<close>

lemma execute_stage_props:
  "case execute_stage s r uq mr iv of (r', t) \<Rightarrow>
     (\<exists>post. t = ExecutionCall (map_option sql (response_sql r)) # post \<and> executions post = [])
     \<and> validation r' = validation r
     \<and> ((status r' = FAILED \<and> (\<exists>msg. error_message r' = Some msg \<and> msg \<noteq> []))
        \<or> (status r' = SUCCESS \<and> error_message r' = error_message r
            \<and> (\<exists>er. execute_query (collaborators s) (response_sql r) mr = Inr er \<and> success er
                  \<and> result r' = data er
                  \<and> (VisualizationCall \<in> set t \<longrightarrow>
                        (\<exists>qr vz. data er = Some qr
                            \<and> generate_visualization (collaborators s) qr uq = Inr vz)))))"
  by (simp add: execute_stage_def Let_def failed_def unexpected_def executions_def
      split: sum.split option.split)

text \<open>
  A run of \<open>process_query\<close> ends in one of four ways: before validation, at validation
  without a verdict, at validation with an unsafe verdict, or after the safety gate with
  the execution stage's outcome.
\<close>

lemma process_query_outcome:
  assumes run: "process_query self uq m iv = (resp, self', trace)"
  shows
    "(stopped resp trace \<and> validation resp = None \<and> validation_stage self uq = None)
     \<or> (\<exists>vr cand. validation_stage self uq = Some (vr, cand) \<and> stopped resp trace
           \<and> (\<not> success vr \<or> data vr = None) \<and> validation resp = None)
     \<or> (\<exists>vr cand v. validation_stage self uq = Some (vr, cand) \<and> stopped resp trace
           \<and> success vr \<and> data vr = Some v \<and> \<not> safe_to_execute v \<and> validation resp = Some v)
     \<or> (\<exists>vr cand v pre post.
           validation_stage self uq = Some (vr, cand) \<and> success vr \<and> data vr = Some v
           \<and> safe_to_execute v \<and> validation resp = Some v
           \<and> trace = pre @ ValidationCall # ExecutionCall (map_option sql cand) # post
           \<and> executions pre = [] \<and> executions post = []
           \<and> ((status resp = FAILED \<and> (\<exists>msg. error_message resp = Some msg \<and> msg \<noteq> []))
              \<or> (status resp = SUCCESS \<and> error_message resp = None
                  \<and> (\<exists>er. execution_stage self uq m = Some (Inr er) \<and> success er
                        \<and> (VisualizationCall \<in> set trace \<longrightarrow>
                              (\<exists>qr vz. data er = Some qr
                                 \<and> generate_visualization (collaborators self) qr uq = Inr vz))))))"
proof -
  obtain sres conn' calls
    where gs: "get_schema_context (database self) (db_connector self) uq None True
                 = (sres, conn', calls)"
    by (metis prod_cases3)
  have ss: "schema_stage self uq = sres"
    by (simp add: schema_stage_def gs)
  show ?thesis
  proof (cases "success sres")
    case False
    then have "stopped resp trace \<and> validation resp = None"
      using run by (auto simp: process_query_def Let_def gs failed_def stopped_def executions_def)
    moreover have "validation_stage self uq = None"
      using False by (simp add: validation_stage_def ss)
    ultimately show ?thesis by blast
  next
    case schema_ok: True
    have gen: "generation_stage self uq = generate_sql (collaborators self) uq (data sres)"
      by (simp add: generation_stage_def ss)
    show ?thesis
    proof (cases "generate_sql (collaborators self) uq (data sres)")
      case (Inl e)
      then have "stopped resp trace \<and> validation resp = None"
        using run schema_ok
        by (auto simp: process_query_def Let_def gs failed_def unexpected_def stopped_def
            executions_def)
      moreover have "validation_stage self uq = None"
        using Inl schema_ok by (simp add: validation_stage_def ss gen)
      ultimately show ?thesis by blast
    next
      case (Inr sql_result)
      show ?thesis
      proof (cases "success sql_result")
        case False
        then have "stopped resp trace \<and> validation resp = None"
          using run schema_ok Inr
          by (auto simp: process_query_def Let_def gs failed_def stopped_def executions_def)
        moreover have "validation_stage self uq = None"
          using Inr False schema_ok by (simp add: validation_stage_def ss gen)
        ultimately show ?thesis by blast
      next
        case gen_ok: True
        obtain vr cand where vc:
          "validate_candidate (validation_agent self) (data sql_result) uq = (vr, cand)"
          by (cases "validate_candidate (validation_agent self) (data sql_result) uq")
        have vs: "validation_stage self uq = Some (vr, cand)"
          using Inr gen_ok schema_ok vc by (simp add: validation_stage_def ss gen)
        show ?thesis
        proof (cases "success vr")
          case False
          then have "stopped resp trace \<and> validation resp = None"
            using run schema_ok Inr gen_ok vc
            by (auto simp: process_query_def Let_def gs failed_def stopped_def executions_def)
          with vs False show ?thesis by blast
        next
          case val_ok: True
          show ?thesis
          proof (cases "data vr")
            case None
            then have "stopped resp trace \<and> validation resp = None"
              using run schema_ok Inr gen_ok vc val_ok
              by (auto simp: process_query_def Let_def gs failed_def unexpected_def stopped_def
                  executions_def attribute_error_def)
            with vs None show ?thesis by blast
          next
            case (Some v)
            show ?thesis
            proof (cases "safe_to_execute v")
              case False
              then have "stopped resp trace \<and> validation resp = Some v"
                using run schema_ok Inr gen_ok vc val_ok Some
                by (auto simp: process_query_def Let_def gs failed_def stopped_def
                    executions_def)
              with vs val_ok Some False show ?thesis by blast
            next
              case safe: True
              define r3 where "r3 = \<lparr>status = VALIDATING, user_query = uq, response_sql = cand,
                 validation = Some v, result = None, chart_html = None, error_message = None\<rparr>"
              define s1 where "s1 = self\<lparr>db_connector := conn'\<rparr>"
              obtain r4 t4 where ex:
                "execute_stage s1 r3 uq (effective_max_rows self m) iv = (r4, t4)"
                by (cases "execute_stage s1 r3 uq (effective_max_rows self m) iv")
              have res: "resp = r4 \<and> trace = [SchemaCall calls, GenerationCall, ValidationCall] @ t4"
                using run schema_ok Inr gen_ok vc val_ok Some safe ex
                by (simp add: process_query_def Let_def gs r3_def s1_def effective_max_rows_def)
              have es: "execution_stage self uq m
                          = Some (execute_query (collaborators self) cand (effective_max_rows self m))"
                using vs val_ok Some safe by (simp add: execution_stage_def)
              have props: "(\<exists>post. t4 = ExecutionCall (map_option sql cand) # post \<and> executions post = [])
                 \<and> validation r4 = Some v
                 \<and> ((status r4 = FAILED \<and> (\<exists>msg. error_message r4 = Some msg \<and> msg \<noteq> []))
                    \<or> (status r4 = SUCCESS \<and> error_message r4 = None
                        \<and> (\<exists>er. execute_query (collaborators self) cand (effective_max_rows self m) = Inr er
                              \<and> success er \<and> result r4 = data er
                              \<and> (VisualizationCall \<in> set t4 \<longrightarrow>
                                    (\<exists>qr vz. data er = Some qr
                                        \<and> generate_visualization (collaborators self) qr uq = Inr vz)))))"
                using execute_stage_props [where s = s1 and r = r3 and uq = uq
                    and mr = "effective_max_rows self m" and iv = iv] ex
                by (simp add: r3_def s1_def)
              then obtain post where post: "t4 = ExecutionCall (map_option sql cand) # post"
                  "executions post = []"
                by blast
              have tr: "trace = [SchemaCall calls, GenerationCall] @ ValidationCall
                          # ExecutionCall (map_option sql cand) # post"
                using res post by simp
              have pre: "executions [SchemaCall calls, GenerationCall] = []"
                by (simp add: executions_def)
              have viz: "VisualizationCall \<in> set trace \<longleftrightarrow> VisualizationCall \<in> set t4"
                using res by auto
              have "validation_stage self uq = Some (vr, cand) \<and> success vr \<and> data vr = Some v
                 \<and> safe_to_execute v \<and> validation resp = Some v
                 \<and> trace = [SchemaCall calls, GenerationCall] @ ValidationCall
                      # ExecutionCall (map_option sql cand) # post
                 \<and> executions [SchemaCall calls, GenerationCall] = [] \<and> executions post = []
                 \<and> ((status resp = FAILED \<and> (\<exists>msg. error_message resp = Some msg \<and> msg \<noteq> []))
                    \<or> (status resp = SUCCESS \<and> error_message resp = None
                        \<and> (\<exists>er. execution_stage self uq m = Some (Inr er) \<and> success er
                              \<and> (VisualizationCall \<in> set trace \<longrightarrow>
                                    (\<exists>qr vz. data er = Some qr
                                       \<and> generate_visualization (collaborators self) qr uq = Inr vz)))))"
                using vs val_ok Some safe props res tr pre post(2) es viz by auto
              then show ?thesis by blast
            qed
          qed
        qed
      qed
    qed
  qed
qed

lemma validation_stage_SomeD:
  "validation_stage self uq = Some x \<Longrightarrow>
   success (schema_stage self uq) \<and> (\<exists>sr. generation_stage self uq = Inr sr \<and> success sr)"
  by (auto simp: validation_stage_def split: if_splits sum.splits)

lemma run_select:
  "status (fst (process_query (orchestrator_with ''SELECT id FROM users'') ''list users'' None True))
     = SUCCESS
   \<and> executions (snd (snd (process_query (orchestrator_with ''SELECT id FROM users'')
        ''list users'' None True))) = [Some (''SELECT id FROM users'' @ CHR 0x0A # ''LIMIT 1000'')]"
  by code_simp

lemma run_drop:
  "status (fst (process_query (orchestrator_with ''DROP TABLE orders'') ''drop it'' None True))
     = FAILED
   \<and> (case validation_stage (orchestrator_with ''DROP TABLE orders'') ''drop it'' of
        None \<Rightarrow> False
      | Some (vr, cand) \<Rightarrow> (case data vr of None \<Rightarrow> False | Some v \<Rightarrow> \<not> safe_to_execute v))"
  by code_simp

text \<open>
  C2. In every run of \<open>process_query\<close>, if the execution stage is called at all, then the
  validation stage was reached and returned a result with \<open>safe_to_execute\<close>, the call to
  validation comes right before the single call to execution, and execution receives the
  candidate as validation left it. Whenever validation returns a result with
  \<open>safe_to_execute\<close> false, the run ends with status \<open>FAILED\<close> and execution is never called.
\<close>

theorem C2_execution_gated:
  assumes "process_query self uq m iv = (resp, self', trace)"
  shows "(executions trace \<noteq> [] \<longrightarrow>
            (\<exists>vr cand v pre post.
               validation_stage self uq = Some (vr, cand) \<and> success vr \<and> data vr = Some v
               \<and> safe_to_execute v
               \<and> trace = pre @ ValidationCall # ExecutionCall (map_option sql cand) # post
               \<and> executions pre = [] \<and> executions post = []))
       \<and> (\<forall>vr cand v. validation_stage self uq = Some (vr, cand) \<and> data vr = Some v
              \<and> \<not> safe_to_execute v \<longrightarrow> status resp = FAILED \<and> executions trace = [])"
  using process_query_outcome [OF assms]
  by (elim disjE exE conjE) (auto simp: stopped_def)

theorem C2_execution_gated_witness:
  "executions (snd (snd (process_query (orchestrator_with ''SELECT id FROM users'')
       ''list users'' None True))) \<noteq> []
   \<and> (\<exists>vr cand v. validation_stage (orchestrator_with ''SELECT id FROM users'') ''list users''
          = Some (vr, cand) \<and> success vr \<and> data vr = Some v \<and> safe_to_execute v)
   \<and> (\<exists>vr cand v. validation_stage (orchestrator_with ''DROP TABLE orders'') ''drop it''
          = Some (vr, cand) \<and> data vr = Some v \<and> \<not> safe_to_execute v)
   \<and> status (fst (process_query (orchestrator_with ''DROP TABLE orders'') ''drop it'' None True))
        = FAILED
   \<and> executions (snd (snd (process_query (orchestrator_with ''DROP TABLE orders'')
        ''drop it'' None True))) = []"
proof -
  let ?a = "process_query (orchestrator_with ''SELECT id FROM users'') ''list users'' None True"
  let ?b = "process_query (orchestrator_with ''DROP TABLE orders'') ''drop it'' None True"
  have a: "?a = (fst ?a, fst (snd ?a), snd (snd ?a))" by simp
  have b: "?b = (fst ?b, fst (snd ?b), snd (snd ?b))" by simp
  have ex: "executions (snd (snd ?a)) \<noteq> []"
    using run_select by simp
  have unsafe: "\<exists>vr cand v. validation_stage (orchestrator_with ''DROP TABLE orders'') ''drop it''
          = Some (vr, cand) \<and> data vr = Some v \<and> \<not> safe_to_execute v"
    using run_drop by (auto split: option.splits prod.splits)
  from C2_execution_gated [OF a] ex
  have 1: "\<exists>vr cand v. validation_stage (orchestrator_with ''SELECT id FROM users'') ''list users''
          = Some (vr, cand) \<and> success vr \<and> data vr = Some v \<and> safe_to_execute v"
    by blast
  from C2_execution_gated [OF b] unsafe
  have 2: "status (fst ?b) = FAILED \<and> executions (snd (snd ?b)) = []"
    by blast
  from ex 1 unsafe 2 show ?thesis by blast
qed

text \<open>
  C5. \<open>process_query\<close> is a total function into responses: what the source raises inside
  its \<^verbatim>\<open>try\<close> is turned into a response by the handler. Every run ends with status
  \<open>SUCCESS\<close> or \<open>FAILED\<close>; a \<open>FAILED\<close> response carries a non-empty error message; and a
  run ends with \<open>SUCCESS\<close> only if no stage failed: schema retrieval succeeded, generation
  returned a successful result, validation returned a safe verdict, execution returned a
  successful result, and neither of them nor a chart generation that was called raised.
\<close>

theorem C5_failures_are_reported:
  assumes "process_query self uq m iv = (resp, self', trace)"
  shows "(status resp = SUCCESS \<or> status resp = FAILED)
       \<and> (status resp = FAILED \<longrightarrow> (\<exists>msg. error_message resp = Some msg \<and> msg \<noteq> []))
       \<and> (status resp = SUCCESS \<longrightarrow>
            success (schema_stage self uq)
            \<and> (\<exists>sr. generation_stage self uq = Inr sr \<and> success sr)
            \<and> (\<exists>vr cand v. validation_stage self uq = Some (vr, cand) \<and> success vr
                  \<and> data vr = Some v \<and> safe_to_execute v)
            \<and> (\<exists>er. execution_stage self uq m = Some (Inr er) \<and> success er
                  \<and> (VisualizationCall \<in> set trace \<longrightarrow>
                        (\<exists>qr vz. data er = Some qr
                           \<and> generate_visualization (collaborators self) qr uq = Inr vz))))"
  using process_query_outcome [OF assms]
  by (elim disjE exE conjE) (auto simp: stopped_def dest: validation_stage_SomeD)

theorem C5_failures_are_reported_witness:
  "status (fst (process_query (orchestrator_with ''DROP TABLE orders'') ''drop it'' None True))
     = FAILED
   \<and> (\<exists>msg. error_message (fst (process_query (orchestrator_with ''DROP TABLE orders'')
          ''drop it'' None True)) = Some msg \<and> msg \<noteq> [])
   \<and> status (fst (process_query (orchestrator_with ''SELECT id FROM users'') ''list users''
        None True)) = SUCCESS
   \<and> (\<exists>er. execution_stage (orchestrator_with ''SELECT id FROM users'') ''list users'' None
          = Some (Inr er) \<and> success er)"
proof -
  let ?a = "process_query (orchestrator_with ''SELECT id FROM users'') ''list users'' None True"
  let ?b = "process_query (orchestrator_with ''DROP TABLE orders'') ''drop it'' None True"
  have a: "?a = (fst ?a, fst (snd ?a), snd (snd ?a))" by simp
  have b: "?b = (fst ?b, fst (snd ?b), snd (snd ?b))" by simp
  have sa: "status (fst ?a) = SUCCESS" using run_select by simp
  have sb: "status (fst ?b) = FAILED" using run_drop by simp
  from C5_failures_are_reported [OF a] sa
  have 1: "\<exists>er. execution_stage (orchestrator_with ''SELECT id FROM users'') ''list users'' None
          = Some (Inr er) \<and> success er"
    by blast
  from C5_failures_are_reported [OF b] sb
  have 2: "\<exists>msg. error_message (fst ?b) = Some msg \<and> msg \<noteq> []"
    by blast
  from sa sb 1 2 show ?thesis by blast
qed

subsection \<open>Row limit on rejected queries\<close>

lemma limit_none_add:
  "limit_match s = None \<Longrightarrow>
   add_limit_clause s n = rstrip_char CHR '';'' s @ CHR 0x0A # ''LIMIT '' @ show_int n"
  by (simp add: add_limit_clause_def Let_def)

text \<open>
  C10. For every candidate whose SQL, an ASCII text, has no clause \<^verbatim>\<open>LIMIT\<close> with a
  number, and every row limit that can be formatted, the candidate that \<open>validate_query\<close>
  hands back has its \<open>sql\<close> field replaced by the old text without trailing semicolons,
  a newline and \<^verbatim>\<open>LIMIT max_rows\<close>; nothing else of the candidate changes, and the
  rewrite does not depend on the errors found.
\<close>

theorem C10_rewrite_despite_errors:
  assumes "ascii_text (sql q)" and "int_convertible (max_rows agent)"
    and "limit_match (sql q) = None"
  shows "snd (validate_query agent q uq)
     = q\<lparr>sql := rstrip_char CHR '';'' (sql q) @ CHR 0x0A # ''LIMIT '' @ show_int (max_rows agent)\<rparr>"
  using assms(3)
  by (simp add: validate_query_def Let_def estimate_result_size_def limit_none_add
      split: prod.splits)

lemma drop_users_eval:
  "ascii_text (sql (mk_query ''DROP TABLE users;'' None))
   \<and> int_convertible (max_rows agent_1000)
   \<and> limit_match (sql (mk_query ''DROP TABLE users;'' None)) = None
   \<and> mk_query ''DROP TABLE users;'' None
       \<lparr>sql := rstrip_char CHR '';'' (sql (mk_query ''DROP TABLE users;'' None))
                 @ CHR 0x0A # ''LIMIT '' @ show_int (max_rows agent_1000)\<rparr>
     = mk_query (''DROP TABLE users'' @ CHR 0x0A # ''LIMIT 1000'') None
   \<and> map_option safe_to_execute
        (data (fst (validate_query agent_1000 (mk_query ''DROP TABLE users;'' None) ''drop'')))
     = Some False"
  by code_simp

theorem C10_rewrite_despite_errors_witness:
  "ascii_text (sql (mk_query ''DROP TABLE users;'' None))
   \<and> int_convertible (max_rows agent_1000)
   \<and> limit_match (sql (mk_query ''DROP TABLE users;'' None)) = None
   \<and> map_option safe_to_execute
        (data (fst (validate_query agent_1000 (mk_query ''DROP TABLE users;'' None) ''drop'')))
     = Some False
   \<and> snd (validate_query agent_1000 (mk_query ''DROP TABLE users;'' None) ''drop'')
     = mk_query (''DROP TABLE users'' @ CHR 0x0A # ''LIMIT 1000'') None"
proof -
  have a: "ascii_text (sql (mk_query ''DROP TABLE users;'' None))"
    and c: "int_convertible (max_rows agent_1000)"
    and h: "limit_match (sql (mk_query ''DROP TABLE users;'' None)) = None"
    using drop_users_eval by simp_all
  from C10_rewrite_despite_errors [OF a c h, of "''drop''"] drop_users_eval
  show ?thesis by simp
qed

subsection \<open>Schema relevance filter\<close>







subsection \<open>Destructive statements\<close>

lemma search_from_finds:
  "matches pat (if before = [] then p else Some (last before)) s \<noteq> [] \<Longrightarrow>
   search_from pat p (before @ s) \<noteq> None"
proof (induction before arbitrary: p)
  case Nil
  then show ?case by (cases s) (auto split: list.splits)
next
  case (Cons b bs)
  have "matches pat (if bs = [] then Some b else Some (last bs)) s \<noteq> []"
    using Cons.prems by (cases bs) simp_all
  from Cons.IH [OF this] show ?case by (auto split: list.splits)
qed

lemma match_truncate:
  "\<not> word_before p \<Longrightarrow> \<not> word_at after \<Longrightarrow>
   matches (WordB # lits ''TRUNCATE'' @ [WordB]) p (''TRUNCATE'' @ after) \<noteq> []"
  by (simp add: lits_def word_at_def word_before_def is_word_code)

lemma match_drop_table:
  "\<not> word_before p \<Longrightarrow> \<not> word_at after \<Longrightarrow>
   matches (WordB # lits ''DROP'' @ Plus Space # lits ''TABLE'' @ [WordB]) p
     (''DROP TABLE'' @ after) \<noteq> []"
  by (simp add: lits_def word_at_def word_before_def is_word_code is_space_code)

lemma match_delete_from:
  "\<not> word_before p \<Longrightarrow> \<not> word_at after \<Longrightarrow>
   matches (WordB # lits ''DELETE'' @ Plus Space # lits ''FROM'' @ [WordB]) p
     (''DELETE FROM'' @ after) \<noteq> []"
  by (simp add: lits_def word_at_def word_before_def is_word_code is_space_code)

lemma word_before_last:
  "\<not> word_at (rev before) \<Longrightarrow> \<not> word_before (if before = [] then None else Some (last before))"
  by (cases before rule: rev_cases) (simp_all add: word_at_def word_before_def)

lemma destructive_members:
  "(bsl # ''bDROP'' @ bsl # ''s+TABLE'' @ bsl # ''b'',
      WordB # lits ''DROP'' @ Plus Space # lits ''TABLE'' @ [WordB]) \<in> set DESTRUCTIVE_KEYWORDS"
  "(bsl # ''bTRUNCATE'' @ bsl # ''b'', WordB # lits ''TRUNCATE'' @ [WordB])
      \<in> set DESTRUCTIVE_KEYWORDS"
  "(bsl # ''bDELETE'' @ bsl # ''s+FROM'' @ bsl # ''b'',
      WordB # lits ''DELETE'' @ Plus Space # lits ''FROM'' @ [WordB]) \<in> set DESTRUCTIVE_KEYWORDS"
  unfolding DESTRUCTIVE_KEYWORDS_def by (rule list.set_intros | rule list.set_intros(2))+

lemma keyword_found:
  assumes "kw = ''DROP TABLE'' \<or> kw = ''TRUNCATE'' \<or> kw = ''DELETE FROM''"
    and "whole_words before after"
  shows "\<exists>src pat. (src, pat) \<in> set DESTRUCTIVE_KEYWORDS
           \<and> re_search pat (before @ kw @ after) \<noteq> None"
proof -
  let ?p = "if before = [] then None else Some (last before)"
  have b: "\<not> word_before ?p" and a: "\<not> word_at after"
    using assms(2) word_before_last by (simp_all add: whole_words_def)
  from assms(1) consider "kw = ''DROP TABLE''" | "kw = ''TRUNCATE''" | "kw = ''DELETE FROM''"
    by blast
  then show ?thesis
  proof cases
    case 1
    have "re_search (WordB # lits ''DROP'' @ Plus Space # lits ''TABLE'' @ [WordB])
            (before @ kw @ after) \<noteq> None"
      unfolding re_search_def 1 by (rule search_from_finds) (rule match_drop_table [OF b a])
    with destructive_members(1) show ?thesis by blast
  next
    case 2
    have "re_search (WordB # lits ''TRUNCATE'' @ [WordB]) (before @ kw @ after) \<noteq> None"
      unfolding re_search_def 2 by (rule search_from_finds) (rule match_truncate [OF b a])
    with destructive_members(2) show ?thesis by blast
  next
    case 3
    have "re_search (WordB # lits ''DELETE'' @ Plus Space # lits ''FROM'' @ [WordB])
            (before @ kw @ after) \<noteq> None"
      unfolding re_search_def 3 by (rule search_from_finds) (rule match_delete_from [OF b a])
    with destructive_members(3) show ?thesis by blast
  qed
qed

lemma is_destructive_found:
  assumes "(src, pat) \<in> set DESTRUCTIVE_KEYWORDS" and "re_search pat (upper s) \<noteq> None"
  shows "fst (is_destructive s) \<and> snd (is_destructive s) \<noteq> []"
proof -
  have "filter (\<lambda>(src, pat). re_search pat (upper s) \<noteq> None) DESTRUCTIVE_KEYWORDS \<noteq> []"
    using assms by (auto simp: filter_empty_conv)
  then show ?thesis by (simp add: is_destructive_def Let_def)
qed

lemma other_messages:
  "\<not> destructive_message ''SQL syntax appears invalid''
   \<and> \<not> destructive_message ''Empty SQL query''
   \<and> \<not> destructive_message ''Multiple SQL statements not allowed''"
  by code_simp

lemma errors_when_allowed:
  "allow_destructive agent \<Longrightarrow> data (fst (validate_query agent q uq)) = Some v \<Longrightarrow>
   e \<in> set (errors v) \<Longrightarrow> \<not> destructive_message e"
  using other_messages
  by (auto simp: validate_query_def safety_validate_query_def Let_def
      split: prod.splits if_splits)

lemma errors_when_forbidden:
  "\<not> allow_destructive agent \<Longrightarrow> fst (is_destructive (sql q)) \<Longrightarrow>
   snd (is_destructive (sql q)) \<noteq> [] \<Longrightarrow>
   \<exists>v. data (fst (validate_query agent q uq)) = Some v \<and> \<not> is_valid v
        \<and> \<not> safe_to_execute v \<and> errors v \<noteq> []"
  by (auto simp: validate_query_def safety_validate_query_def Let_def split: prod.splits)

text \<open>
  C1, as stated: every SQL string that contains \<^verbatim>\<open>TRUNCATE\<close> in some letter case is
  rejected. The query \<^verbatim>\<open>SELECT truncated FROM results\<close> contains it, inside a column name,
  and is valid with no errors: the patterns ask for a word boundary on both sides.
\<close>

theorem C1_counterexample:
  "contains (upper ''SELECT truncated FROM results'') ''TRUNCATE''
   \<and> \<not> allow_destructive agent_1000
   \<and> map_option is_valid (data (fst (validate_query agent_1000
        (mk_query ''SELECT truncated FROM results'' None) ''truncated results''))) = Some True
   \<and> map_option errors (data (fst (validate_query agent_1000
        (mk_query ''SELECT truncated FROM results'' None) ''truncated results''))) = Some []"
  by code_simp

text \<open>
  C1, amended: for every ASCII SQL string that, in upper case, contains \<^verbatim>\<open>DROP TABLE\<close>,
  \<^verbatim>\<open>TRUNCATE\<close> or \<^verbatim>\<open>DELETE FROM\<close> as whole words (no letter, digit or underscore right
  before or right after the keyword), and whose numbers convert (the number of its first
  \<^verbatim>\<open>LIMIT\<close> clause, if it has one, and the row limit have at most 4300 digits), validation
  without \<open>allow_destructive\<close> returns a result that is not valid, not safe to execute
  and has a non-empty list of errors; with \<open>allow_destructive\<close>, validation of the same
  input returns no error about a destructive operation.
\<close>

theorem C1_destructive_rejected:
  assumes "ascii_text (sql q)" and "limit_number_convertible (sql q)"
    and "int_convertible (max_rows agent)"
    and "upper (sql q) = before @ kw @ after"
    and "kw = ''DROP TABLE'' \<or> kw = ''TRUNCATE'' \<or> kw = ''DELETE FROM''"
    and "whole_words before after"
  shows "(\<not> allow_destructive agent \<longrightarrow>
            (\<exists>v. data (fst (validate_query agent q uq)) = Some v \<and> \<not> is_valid v
                 \<and> \<not> safe_to_execute v \<and> errors v \<noteq> []))
       \<and> (allow_destructive agent \<longrightarrow>
            (\<exists>v. data (fst (validate_query agent q uq)) = Some v
                 \<and> (\<forall>e \<in> set (errors v). \<not> destructive_message e)))"
proof -
  obtain src pat where "(src, pat) \<in> set DESTRUCTIVE_KEYWORDS"
      and "re_search pat (upper (sql q)) \<noteq> None"
    using keyword_found [OF assms(5,6)] assms(4) by auto
  then have d: "fst (is_destructive (sql q)) \<and> snd (is_destructive (sql q)) \<noteq> []"
    by (rule is_destructive_found)
  have "\<exists>v. data (fst (validate_query agent q uq)) = Some v"
    by (simp add: validate_query_def Let_def split: prod.splits)
  then show ?thesis
    using d errors_when_forbidden [of agent q uq] errors_when_allowed [of agent q uq]
    by blast
qed

lemma delete_eval:
  "ascii_text (sql (mk_query ''delete from users where id = 1'' None))
   \<and> limit_number_convertible (sql (mk_query ''delete from users where id = 1'' None))
   \<and> int_convertible (max_rows agent_1000)
   \<and> int_convertible (max_rows (agent_1000\<lparr>allow_destructive := True\<rparr>))
   \<and> upper (sql (mk_query ''delete from users where id = 1'' None))
     = '''' @ ''DELETE FROM'' @ '' USERS WHERE ID = 1''
   \<and> whole_words '''' '' USERS WHERE ID = 1''
   \<and> \<not> allow_destructive agent_1000
   \<and> allow_destructive (agent_1000\<lparr>allow_destructive := True\<rparr>)
   \<and> map_option errors (data (fst (validate_query (agent_1000\<lparr>allow_destructive := True\<rparr>)
        (mk_query ''delete from users where id = 1'' None) ''remove user 1'')))
     = Some [''SQL syntax appears invalid'']"
  by code_simp

theorem C1_destructive_rejected_witness:
  "ascii_text (sql (mk_query ''delete from users where id = 1'' None))
   \<and> limit_number_convertible (sql (mk_query ''delete from users where id = 1'' None))
   \<and> int_convertible (max_rows agent_1000)
   \<and> whole_words '''' '' USERS WHERE ID = 1''
   \<and> (\<exists>v. data (fst (validate_query agent_1000
            (mk_query ''delete from users where id = 1'' None) ''remove user 1'')) = Some v
        \<and> \<not> is_valid v \<and> \<not> safe_to_execute v \<and> errors v \<noteq> [])
   \<and> map_option errors (data (fst (validate_query (agent_1000\<lparr>allow_destructive := True\<rparr>)
        (mk_query ''delete from users where id = 1'' None) ''remove user 1'')))
     = Some [''SQL syntax appears invalid'']
   \<and> (\<exists>v. data (fst (validate_query (agent_1000\<lparr>allow_destructive := True\<rparr>)
            (mk_query ''delete from users where id = 1'' None) ''remove user 1'')) = Some v
        \<and> (\<forall>e \<in> set (errors v). \<not> destructive_message e))"
proof -
  have a: "ascii_text (sql (mk_query ''delete from users where id = 1'' None))"
    and l: "limit_number_convertible (sql (mk_query ''delete from users where id = 1'' None))"
    and c1: "int_convertible (max_rows agent_1000)"
    and c2: "int_convertible (max_rows (agent_1000\<lparr>allow_destructive := True\<rparr>))"
    using delete_eval by blast+
  have 1: "upper (sql (mk_query ''delete from users where id = 1'' None))
             = '''' @ ''DELETE FROM'' @ '' USERS WHERE ID = 1''"
    using delete_eval by blast
  have 2: "''DELETE FROM'' = ''DROP TABLE'' \<or> ''DELETE FROM'' = ''TRUNCATE''
             \<or> ''DELETE FROM'' = ''DELETE FROM''"
    by simp
  have 3: "whole_words '''' '' USERS WHERE ID = 1''"
    using delete_eval by blast
  have 4: "\<not> allow_destructive agent_1000"
    "allow_destructive (agent_1000\<lparr>allow_destructive := True\<rparr>)"
    using delete_eval by blast+
  from C1_destructive_rejected [OF a l c1 1 2 3, of "''remove user 1''"]
    C1_destructive_rejected [OF a l c2 1 2 3, of "''remove user 1''"] 4 delete_eval a l c1 3
  show ?thesis by blast
qed

subsection \<open>Row-limit rewrite\<close>

lemma first_simps [simp]: "first [] = None" "first (x # xs) = Some x"
  by (simp_all add: first_def)


















declare re_sub_from.simps [simp del]
























































end
